theory Spec2Isabelle
  imports Complex_Main "HOL-Library.Char_ord" "HOL-Library.List_Lexorder"
    "HOL-Library.Product_Lexorder"
begin

section \<open>Data model\<close>

text \<open>
  The program is \<^verbatim>\<open>streamlit_app.py\<close>: two validators and \<^verbatim>\<open>process_files\<close>, all
  working on pandas data frames. A frame is modelled by the list of its column labels
  (\<^verbatim>\<open>df.columns\<close>) and the list of its rows, in index order. A missing cell (pandas'
  NaN/None) of a text column is \<open>None\<close>.

  Numeric cells are IEEE doubles in the program. The model keeps NaN, the two infinities
  and the negative zero apart from the other doubles; \<open>Fin x\<close> is the double of value \<open>x\<close>,
  and \<open>Fin 0\<close> the positive zero. A quotient or a product that is too large for a double
  is an infinity, as in the program. What the model leaves out is the rounding of a result
  to the nearest double: a result in range is kept exact.
\<close>

datatype float64 = Fin rat | NegZero | NaN | PosInf | NegInf

text \<open>
  The result of an operation whose exact value is \<open>x\<close>: an infinity from the point on where
  rounding to the nearest double overflows.
\<close>

definition overflow_threshold :: rat where
  "overflow_threshold = (2 - 1 / 2 ^ 53) * 2 ^ 1023"

definition rounded :: "rat \<Rightarrow> float64" where
  "rounded x = (if overflow_threshold \<le> x then PosInf
                else if x \<le> - overflow_threshold then NegInf else Fin x)"

text \<open>The column types that a file read by \<^verbatim>\<open>read_file\<close> can have.\<close>

datatype dtype = Int64 | Float64 | Bool | Object | Datetime64

text \<open>\<^verbatim>\<open>pd.api.types.is_numeric_dtype\<close>: integers, floats and booleans are numeric.\<close>

fun is_numeric_dtype :: "dtype \<Rightarrow> bool" where
  "is_numeric_dtype Int64 = True"
| "is_numeric_dtype Float64 = True"
| "is_numeric_dtype Bool = True"
| "is_numeric_dtype Object = False"
| "is_numeric_dtype Datetime64 = False"

text \<open>
  The respondent table. \<open>d_columns\<close> is \<^verbatim>\<open>df.columns\<close> and \<open>d_dtype c\<close> the type of
  column \<open>c\<close>; a row carries the four columns the program reads. \<^verbatim>\<open>responseid\<close> holds
  integers and the three segment columns hold text; a segment column without any value
  is read from a file as a column of floats.
\<close>

record data_row =
  responseid :: int
  Country :: "string option"
  Industry :: "string option"
  Revenue_Range :: "string option"

record data_df =
  d_columns :: "string list"
  d_dtype :: "string \<Rightarrow> dtype"
  d_rows :: "data_row list"

text \<open>
  The quota table. \<open>u_dtype c\<close> is the type of column \<open>c\<close>, \<open>u_cell r c\<close> the numeric
  value of row \<open>r\<close> in column \<open>c\<close>; both are read only at labels of \<open>u_columns\<close>.
\<close>

record universe_row =
  u_Country :: "string option"
  u_Industry :: "string option"
  u_cell :: "string \<Rightarrow> float64"

record universe_df =
  u_columns :: "string list"
  u_dtype :: "string \<Rightarrow> dtype"
  u_rows :: "universe_row list"

subsection \<open>Exceptions\<close>

text \<open>
  The program raises \<^verbatim>\<open>ValueError\<close> only. Inside \<^verbatim>\<open>process_files\<close> an exception of
  pandas or of the interpreter is caught and raised again as a \<^verbatim>\<open>ValueError\<close> whose
  message is a fixed prefix followed by the text of the caught exception. That text is
  the library's, so the model keeps the failure itself in its place.
\<close>

datatype lib_failure =
    Missing_Labels                \<comment> \<open>\<^verbatim>\<open>KeyError\<close>: a label is not a column of the frame\<close>
  | Value_Name_Clash              \<comment> \<open>\<^verbatim>\<open>melt\<close>: \<^verbatim>\<open>value_name\<close> is already a column\<close>
  | Float_To_Int                  \<comment> \<open>\<^verbatim>\<open>OverflowError\<close>: \<^verbatim>\<open>int\<close> of an infinity\<close>
  | NaN_To_Int                    \<comment> \<open>\<^verbatim>\<open>ValueError\<close>: \<^verbatim>\<open>int\<close> of NaN\<close>
  | Merge_Key_Types               \<comment> \<open>\<^verbatim>\<open>ValueError\<close>: \<^verbatim>\<open>merge\<close> on a text and a numeric column\<close>

datatype message = Lit string | Lib_Text string lib_failure

datatype exn_class = ValueError | KeyError | OverflowError

datatype exn = Exn exn_class message

text \<open>\<^verbatim>\<open>str(e)\<close>\<close>

fun str_exn :: "exn \<Rightarrow> message" where
  "str_exn (Exn c t) = t"

text \<open>The exception that a failing library call raises.\<close>

fun raise_lib :: "lib_failure \<Rightarrow> exn" where
  "raise_lib Missing_Labels = Exn KeyError (Lib_Text [] Missing_Labels)"
| "raise_lib Value_Name_Clash = Exn ValueError (Lib_Text [] Value_Name_Clash)"
| "raise_lib Float_To_Int = Exn OverflowError (Lib_Text [] Float_To_Int)"
| "raise_lib NaN_To_Int = Exn ValueError (Lib_Text [] NaN_To_Int)"
| "raise_lib Merge_Key_Types = Exn ValueError (Lib_Text [] Merge_Key_Types)"

text \<open>\<^verbatim>\<open>f"{prefix}{t}"\<close>\<close>

fun prepend :: "string \<Rightarrow> message \<Rightarrow> message" where
  "prepend p (Lit s) = Lit (p @ s)"
| "prepend p (Lib_Text q l) = Lib_Text (p @ q) l"

text \<open>\<^verbatim>\<open>sep.join(xs)\<close>\<close>

fun join :: "string \<Rightarrow> string list \<Rightarrow> string" where
  "join sep [] = []"
| "join sep [x] = x"
| "join sep (x # y # ys) = x @ sep @ join sep (y # ys)"

section \<open>The validators\<close>

text \<open>\<^verbatim>\<open>Series.unique()\<close>: the distinct values, in order of first appearance.\<close>

definition unique :: "'a list \<Rightarrow> 'a list" where
  "unique xs = rev (remdups (rev xs))"

text \<open>\<^verbatim>\<open>Series.dropna()\<close>\<close>

definition dropna :: "'a option list \<Rightarrow> 'a list" where
  "dropna xs = map the (filter (\<lambda>x. x \<noteq> None) xs)"

definition missing_from :: "string list \<Rightarrow> string list \<Rightarrow> string list" where
  "missing_from required cols = filter (\<lambda>c. c \<notin> set cols) required"

definition validate_data_file :: "data_df \<Rightarrow> string list \<Rightarrow> exn + unit" where
  "validate_data_file df revenue_ranges =
     (let required_columns = [''responseid'', ''Country'', ''Industry'', ''Revenue Range''];
          missing_columns = missing_from required_columns (d_columns df)
      in if missing_columns \<noteq> [] then
           Inl (Exn ValueError (Lit (''Data file is missing required columns: ''
                  @ join '', '' missing_columns)))
         else
           let invalid_revenue_ranges = unique (dropna (map Revenue_Range (d_rows df)));
               invalid_revenue_ranges =
                 filter (\<lambda>r. r \<notin> set revenue_ranges) invalid_revenue_ranges
           in if invalid_revenue_ranges \<noteq> [] then
                Inl (Exn ValueError (Lit (''Data file contains invalid Revenue Range values: ''
                       @ join '', '' invalid_revenue_ranges
                       @ ''. Expected values are: '' @ join '', '' revenue_ranges)))
              else Inr ())"

text \<open>
  The loop of \<^verbatim>\<open>validate_universe_file\<close> over the revenue range columns: it raises at
  the first column that is not numeric.
\<close>

fun check_numeric :: "(string \<Rightarrow> dtype) \<Rightarrow> string list \<Rightarrow> exn + unit" where
  "check_numeric dt [] = Inr ()"
| "check_numeric dt (col # cols) =
     (if \<not> is_numeric_dtype (dt col) then
        Inl (Exn ValueError (Lit (''Universe file column '' @ [CHR 0x27] @ col @ [CHR 0x27]
               @ '' must contain numeric values.'')))
      else check_numeric dt cols)"

definition validate_universe_file :: "universe_df \<Rightarrow> exn + string list" where
  "validate_universe_file df =
     (let required_columns = [''Industry'', ''Country''];
          missing_columns = missing_from required_columns (u_columns df)
      in if missing_columns \<noteq> [] then
           Inl (Exn ValueError (Lit (''Universe file is missing required columns: ''
                  @ join '', '' missing_columns)))
         else
           let revenue_ranges =
                 filter (\<lambda>col. col \<notin> set [''Industry'', ''Country'']) (u_columns df)
           in if revenue_ranges = [] then
                Inl (Exn ValueError (Lit (''Universe file must have at least one revenue range column (e.g., ''
                       @ [CHR 0x27] @ ''Less than 250M'' @ [CHR 0x27] @ '', ''
                       @ [CHR 0x27] @ ''250M to 500M'' @ [CHR 0x27] @ '').'')))
              else
                (case check_numeric (u_dtype df) revenue_ranges of
                   Inl e \<Rightarrow> Inl e
                 | Inr _ \<Rightarrow> Inr revenue_ranges))"

section \<open>Arithmetic on numeric cells\<close>

text \<open>
  The operations of \<^verbatim>\<open>process_files\<close> on a numeric column, cell by cell. pandas divides
  by zero without raising and yields an infinity, of the sign of the zero.
\<close>

text \<open>
  \<^verbatim>\<open>count - quota\<close>. A count is a 64-bit integer, so the difference of a count and a
  double does not overflow.
\<close>

fun count_minus :: "nat \<Rightarrow> float64 \<Rightarrow> float64" where
  "count_minus c (Fin q) = Fin (of_nat c - q)"
| "count_minus c NegZero = Fin (of_nat c)"
| "count_minus c NaN = NaN"
| "count_minus c PosInf = NegInf"
| "count_minus c NegInf = PosInf"

text \<open>\<^verbatim>\<open>count / quota\<close>\<close>

fun count_div :: "nat \<Rightarrow> float64 \<Rightarrow> float64" where
  "count_div c (Fin q) =
     (if q = 0 then (if c = 0 then NaN else PosInf)
      else if c = 0 \<and> q < 0 then NegZero
      else rounded (of_nat c / q))"
| "count_div c NegZero = (if c = 0 then NaN else NegInf)"
| "count_div c NaN = NaN"
| "count_div c PosInf = Fin 0"
| "count_div c NegInf = NegZero"

text \<open>\<^verbatim>\<open>x * 100\<close>\<close>

fun times_100 :: "float64 \<Rightarrow> float64" where
  "times_100 (Fin x) = rounded (x * 100)"
| "times_100 NegZero = NegZero"
| "times_100 NaN = NaN"
| "times_100 PosInf = PosInf"
| "times_100 NegInf = NegInf"

text \<open>\<^verbatim>\<open>x.clip(lower=0)\<close>: a value below 0 becomes 0\<close>

fun clip_lower_0 :: "float64 \<Rightarrow> float64" where
  "clip_lower_0 (Fin x) = Fin (max 0 x)"
| "clip_lower_0 NegZero = NegZero"
| "clip_lower_0 NaN = NaN"
| "clip_lower_0 PosInf = PosInf"
| "clip_lower_0 NegInf = Fin 0"

text \<open>\<^verbatim>\<open>x.clip(upper=100)\<close>: a value above 100 becomes 100\<close>

fun clip_upper_100 :: "float64 \<Rightarrow> float64" where
  "clip_upper_100 (Fin x) = Fin (min 100 x)"
| "clip_upper_100 NegZero = NegZero"
| "clip_upper_100 NaN = NaN"
| "clip_upper_100 PosInf = Fin 100"
| "clip_upper_100 NegInf = NegInf"

text \<open>\<^verbatim>\<open>x > 0\<close>: false on NaN\<close>

fun gt_0 :: "float64 \<Rightarrow> bool" where
  "gt_0 (Fin x) = (0 < x)"
| "gt_0 NegZero = False"
| "gt_0 NaN = False"
| "gt_0 PosInf = True"
| "gt_0 NegInf = False"

text \<open>\<^verbatim>\<open>x.notna()\<close>\<close>

fun notna :: "float64 \<Rightarrow> bool" where
  "notna NaN = False"
| "notna x = True"

text \<open>
  \<^verbatim>\<open>int(x)\<close> truncates towards zero and raises on an infinity and on NaN.
\<close>

fun int_of :: "float64 \<Rightarrow> lib_failure + int" where
  "int_of (Fin x) = Inr (if 0 \<le> x then \<lfloor>x\<rfloor> else \<lceil>x\<rceil>)"
| "int_of NegZero = Inr 0"
| "int_of NaN = Inl NaN_To_Int"
| "int_of PosInf = Inl Float_To_Int"
| "int_of NegInf = Inl Float_To_Int"

text \<open>Rounding to the nearest integer, ties to the even one (\<^verbatim>\<open>numpy.rint\<close>).\<close>

definition rint :: "rat \<Rightarrow> int" where
  "rint x = (let f = \<lfloor>x\<rfloor>; d = x - of_int f
             in if d < 1 / 2 then f else if 1 / 2 < d then f + 1
                else if even f then f else f + 1)"

text \<open>
  \<^verbatim>\<open>x.round(2)\<close>: numpy multiplies by 100, rounds to an integer and divides by 100. A
  negative value that rounds to zero gives the negative zero.
\<close>

fun round_2 :: "float64 \<Rightarrow> float64" where
  "round_2 (Fin x) =
     (case rounded (x * 100) of
        Fin y \<Rightarrow> (if rint y = 0 \<and> x < 0 then NegZero else Fin (of_int (rint y) / 100))
      | z \<Rightarrow> z)"
| "round_2 NegZero = NegZero"
| "round_2 NaN = NaN"
| "round_2 PosInf = PosInf"
| "round_2 NegInf = NegInf"

text \<open>
  \<^verbatim>\<open>xs[start:]\<close> of a Python list: a negative start counts from the end, and a start
  outside the list is clamped.
\<close>

definition slice_from :: "int \<Rightarrow> 'a list \<Rightarrow> 'a list" where
  "slice_from start xs =
     (let n = int (length xs);
          s = (if start < 0 then max 0 (start + n) else min start n)
      in drop (nat s) xs)"

section \<open>\<^verbatim>\<open>process_files\<close>\<close>

type_synonym segment = "string \<times> string \<times> string"

subsection \<open>Step 1: group the data file\<close>

text \<open>
  \<^verbatim>\<open>groupby\<close> drops the rows with a missing value in a key column, makes one group for
  each distinct key and orders the groups by key. \<^verbatim>\<open>size\<close> counts the rows of a group,
  and the identifiers of a group are sorted.
\<close>

record grouped_row =
  g_Country :: string
  g_Industry :: string
  g_Revenue_Range :: string
  g_count :: nat
  g_response_ids :: "int list"

fun key_of :: "data_row \<Rightarrow> segment option" where
  "key_of r =
     (case (Country r, Industry r, Revenue_Range r) of
        (Some c, Some i, Some v) \<Rightarrow> Some (c, i, v)
      | _ \<Rightarrow> None)"

declare key_of.simps [simp del]

definition members :: "data_row list \<Rightarrow> segment \<Rightarrow> data_row list" where
  "members rows k = filter (\<lambda>r. key_of r = Some k) rows"

definition group_row :: "data_row list \<Rightarrow> segment \<Rightarrow> grouped_row" where
  "group_row rows k =
     \<lparr>g_Country = fst k, g_Industry = fst (snd k), g_Revenue_Range = snd (snd k),
      g_count = length (members rows k),
      g_response_ids = sort (map responseid (members rows k))\<rparr>"

definition group_keys :: "data_row list \<Rightarrow> segment list" where
  "group_keys rows = sort (remdups (List.map_filter key_of rows))"

definition grouped_data :: "data_df \<Rightarrow> exn + grouped_row list" where
  "grouped_data data_df =
     (if missing_from [''Country'', ''Industry'', ''Revenue Range'', ''responseid'']
           (d_columns data_df) \<noteq> []
      then Inl (raise_lib Missing_Labels)
      else Inr (map (group_row (d_rows data_df)) (group_keys (d_rows data_df))))"

subsection \<open>Step 2: reshape the universe file\<close>

text \<open>
  \<^verbatim>\<open>melt\<close> makes one row for each value column and each row of the frame, column by
  column, whatever the cell holds. It raises when an identifier or value column is not
  in the frame, and when the frame already has a column named as the new value column.
\<close>

record melted_row =
  q_Country :: "string option"
  q_Industry :: "string option"
  q_Revenue_Range :: string
  q_quota :: float64

definition melt_cell :: "string \<Rightarrow> universe_row \<Rightarrow> melted_row" where
  "melt_cell col r =
     \<lparr>q_Country = u_Country r, q_Industry = u_Industry r, q_Revenue_Range = col,
      q_quota = u_cell r col\<rparr>"

definition universe_df_melted :: "universe_df \<Rightarrow> string list \<Rightarrow> exn + melted_row list" where
  "universe_df_melted universe_df revenue_ranges =
     (if ''quota'' \<in> set (u_columns universe_df) then Inl (raise_lib Value_Name_Clash)
      else if missing_from ([''Country'', ''Industry''] @ revenue_ranges)
                (u_columns universe_df) \<noteq> []
      then Inl (raise_lib Missing_Labels)
      else Inr (concat (map (\<lambda>col. map (melt_cell col) (u_rows universe_df)) revenue_ranges)))"

subsection \<open>Step 3: merge\<close>

text \<open>
  The left join keeps the grouped rows in their order; a grouped row is paired with each
  quota row of the same key, in the order of the quota rows, or once with a missing quota
  when there is none.
\<close>

record joined_row =
  j_Country :: string
  j_Industry :: string
  j_Revenue_Range :: string
  j_count :: nat
  j_response_ids :: "int list"
  j_quota :: float64

definition same_key :: "grouped_row \<Rightarrow> melted_row \<Rightarrow> bool" where
  "same_key g q = (q_Country q = Some (g_Country g) \<and> q_Industry q = Some (g_Industry g)
                    \<and> q_Revenue_Range q = g_Revenue_Range g)"

definition with_quota :: "grouped_row \<Rightarrow> float64 \<Rightarrow> joined_row" where
  "with_quota g x =
     \<lparr>j_Country = g_Country g, j_Industry = g_Industry g, j_Revenue_Range = g_Revenue_Range g,
      j_count = g_count g, j_response_ids = g_response_ids g, j_quota = x\<rparr>"

definition merge_row :: "melted_row list \<Rightarrow> grouped_row \<Rightarrow> joined_row list" where
  "merge_row right g =
     (case filter (same_key g) right of
        [] \<Rightarrow> [with_quota g NaN]
      | qs \<Rightarrow> map (\<lambda>q. with_quota g (q_quota q)) qs)"

definition merge_left :: "grouped_row list \<Rightarrow> melted_row list \<Rightarrow> joined_row list" where
  "merge_left left right = concat (map (merge_row right) left)"

text \<open>
  Before it joins, \<^verbatim>\<open>merge\<close> compares the types of the key columns of the two frames,
  unless exactly one of the frames has no row, and raises when a key is text in one frame
  and numbers in the other, or a date in one only. The key columns of the grouped frame
  have the types of the data file's columns; in the reshaped quota table
  \<^verbatim>\<open>Revenue Range\<close> holds the column names, which are text.
\<close>

definition incompatible :: "dtype \<Rightarrow> dtype \<Rightarrow> bool" where
  "incompatible l r =
     (l \<noteq> r \<and> \<not> (is_numeric_dtype l \<and> is_numeric_dtype r)
      \<and> \<not> (l = Object \<and> r = Bool) \<and> \<not> (l = Bool \<and> r = Object))"

definition merge_keys ::
  "data_df \<Rightarrow> universe_df \<Rightarrow> grouped_row list \<Rightarrow> melted_row list \<Rightarrow> exn + unit" where
  "merge_keys data_df universe_df left right =
     (if (left = [] \<longleftrightarrow> right = [])
         \<and> (incompatible (d_dtype data_df ''Country'') (u_dtype universe_df ''Country'')
              \<or> incompatible (d_dtype data_df ''Industry'') (u_dtype universe_df ''Industry'')
              \<or> incompatible (d_dtype data_df ''Revenue Range'') Object)
      then Inl (raise_lib Merge_Key_Types)
      else Inr ())"

subsection \<open>Step 4: excess and fulfillment percentage\<close>

record merged_row =
  m_Country :: string
  m_Industry :: string
  m_Revenue_Range :: string
  m_count :: nat
  m_response_ids :: "int list"
  m_quota :: float64
  m_excess :: float64
  m_fulfillment_percentage :: float64

definition calculate :: "joined_row \<Rightarrow> merged_row" where
  "calculate j =
     \<lparr>m_Country = j_Country j, m_Industry = j_Industry j, m_Revenue_Range = j_Revenue_Range j,
      m_count = j_count j, m_response_ids = j_response_ids j, m_quota = j_quota j,
      m_excess = clip_lower_0 (count_minus (j_count j) (j_quota j)),
      m_fulfillment_percentage =
        clip_upper_100 (times_100 (count_div (j_count j) (j_quota j)))\<rparr>"

text \<open>The columns of \<^verbatim>\<open>merged_df\<close> after step 4.\<close>

definition merged_columns :: "string list" where
  "merged_columns = [''Country'', ''Industry'', ''Revenue Range'', ''count'', ''response_ids'',
                     ''quota'', ''excess'', ''fulfillment_percentage'']"

subsection \<open>Step 5: the excess respondents\<close>

record excess_row =
  e_Country :: string
  e_Industry :: string
  e_Revenue_Range :: string
  e_Quota :: float64
  e_Count :: nat
  e_Excess :: float64
  e_Response_ID :: int

definition excess_dict :: "merged_row \<Rightarrow> int \<Rightarrow> excess_row" where
  "excess_dict row resp_id =
     \<lparr>e_Country = m_Country row, e_Industry = m_Industry row,
      e_Revenue_Range = m_Revenue_Range row, e_Quota = m_quota row, e_Count = m_count row,
      e_Excess = m_excess row, e_Response_ID = resp_id\<rparr>"

text \<open>The body of the loop for one row of \<^verbatim>\<open>merged_df\<close>: the dictionaries it appends.\<close>

definition excess_of_row :: "merged_row \<Rightarrow> lib_failure + excess_row list" where
  "excess_of_row row =
     (if gt_0 (m_excess row) then
        (case int_of (m_excess row) of
           Inl f \<Rightarrow> Inl f
         | Inr n \<Rightarrow> Inr (map (excess_dict row) (slice_from (- n) (m_response_ids row))))
      else Inr [])"

fun excess_respondents :: "merged_row list \<Rightarrow> exn + excess_row list" where
  "excess_respondents [] = Inr []"
| "excess_respondents (row # rows) =
     (case excess_of_row row of
        Inl f \<Rightarrow> Inl (raise_lib f)
      | Inr new \<Rightarrow>
          (case excess_respondents rows of
             Inl e \<Rightarrow> Inl e
           | Inr rest \<Rightarrow> Inr (new @ rest)))"

subsection \<open>Step 6: the quota fulfillment statistics\<close>

record fulfillment_row =
  f_Country :: string
  f_Industry :: string
  f_Revenue_Range :: string
  f_Count :: nat
  f_Quota :: float64
  f_Fulfillment_Percentage :: float64

text \<open>
  \<^verbatim>\<open>sort_values(ascending=False)\<close> puts the largest value first and NaN last. The key
  below orders the values so. Rows of equal value stay in the order they had, which is
  the library's choice for such rows; no theorem below depends on it.
\<close>

fun descending :: "float64 \<Rightarrow> nat \<times> rat" where
  "descending PosInf = (0, 0)"
| "descending (Fin x) = (1, - x)"
| "descending NegZero = (1, 0)"
| "descending NegInf = (2, 0)"
| "descending NaN = (3, 0)"

definition round_row :: "merged_row \<Rightarrow> merged_row" where
  "round_row row =
     row\<lparr>m_fulfillment_percentage := round_2 (m_fulfillment_percentage row)\<rparr>"

definition fulfillment_frame :: "merged_row list \<Rightarrow> merged_row list" where
  "fulfillment_frame merged_df =
     sort_key (\<lambda>row. descending (m_fulfillment_percentage row))
       (map round_row (filter (\<lambda>row. notna (m_quota row)) merged_df))"

text \<open>The check of the columns of \<^verbatim>\<open>fulfillment_df\<close> before they are selected.\<close>

definition required_columns :: "string list" where
  "required_columns = [''Country'', ''Industry'', ''Revenue Range'', ''count'', ''quota'',
                       ''fulfillment_percentage'']"

definition ensure_columns :: "string list \<Rightarrow> exn + unit" where
  "ensure_columns cols =
     (let missing_columns = missing_from required_columns cols
      in if missing_columns \<noteq> [] then
           Inl (Exn ValueError (Lit (''Internal error: Missing columns in fulfillment DataFrame: ''
                  @ join '', '' missing_columns)))
         else Inr ())"

definition select_rename :: "merged_row \<Rightarrow> fulfillment_row" where
  "select_rename row =
     \<lparr>f_Country = m_Country row, f_Industry = m_Industry row,
      f_Revenue_Range = m_Revenue_Range row, f_Count = m_count row, f_Quota = m_quota row,
      f_Fulfillment_Percentage = m_fulfillment_percentage row\<rparr>"

subsection \<open>The whole function\<close>

text \<open>The handler of \<^verbatim>\<open>process_files\<close>: whatever was raised becomes a \<^verbatim>\<open>ValueError\<close>.\<close>

definition reraise :: "exn \<Rightarrow> exn" where
  "reraise e = Exn ValueError (prepend ''Error processing files: '' (str_exn e))"

text \<open>\<^verbatim>\<open>merged_df\<close> after steps 3 and 4.\<close>

definition merged_df :: "grouped_row list \<Rightarrow> melted_row list \<Rightarrow> merged_row list" where
  "merged_df grouped melted = map calculate (merge_left grouped melted)"

text \<open>The body of the \<^verbatim>\<open>try\<close> block.\<close>

definition process_body ::
  "data_df \<Rightarrow> universe_df \<Rightarrow> string list \<Rightarrow> exn + excess_row list \<times> fulfillment_row list" where
  "process_body data_df universe_df revenue_ranges =
     (case grouped_data data_df of
        Inl e \<Rightarrow> Inl e
      | Inr grouped \<Rightarrow>
     (case universe_df_melted universe_df revenue_ranges of
        Inl e \<Rightarrow> Inl e
      | Inr melted \<Rightarrow>
     (case merge_keys data_df universe_df grouped melted of
        Inl e \<Rightarrow> Inl e
      | Inr _ \<Rightarrow>
     (case excess_respondents (merged_df grouped melted) of
        Inl e \<Rightarrow> Inl e
      | Inr excess \<Rightarrow>
     (case ensure_columns merged_columns of
        Inl e \<Rightarrow> Inl e
      | Inr _ \<Rightarrow>
          Inr (excess, map select_rename (fulfillment_frame (merged_df grouped melted))))))))"

definition process_files ::
  "data_df \<Rightarrow> universe_df \<Rightarrow> string list \<Rightarrow> exn + excess_row list \<times> fulfillment_row list" where
  "process_files data_df universe_df revenue_ranges =
     (case process_body data_df universe_df revenue_ranges of
        Inl e \<Rightarrow> Inl (reraise e)
      | Inr result \<Rightarrow> Inr result)"

text \<open>The segment of a row, at each step and in each output.\<close>

definition segment_of_grouped :: "grouped_row \<Rightarrow> segment" where
  "segment_of_grouped g = (g_Country g, g_Industry g, g_Revenue_Range g)"

definition segment_of_joined :: "joined_row \<Rightarrow> segment" where
  "segment_of_joined j = (j_Country j, j_Industry j, j_Revenue_Range j)"

definition segment_of_merged :: "merged_row \<Rightarrow> segment" where
  "segment_of_merged row = (m_Country row, m_Industry row, m_Revenue_Range row)"

definition segment_of_excess :: "excess_row \<Rightarrow> segment" where
  "segment_of_excess e = (e_Country e, e_Industry e, e_Revenue_Range e)"

definition segment_of_fulfillment :: "fulfillment_row \<Rightarrow> segment" where
  "segment_of_fulfillment f = (f_Country f, f_Industry f, f_Revenue_Range f)"


section \<open>The scenarios of the specification\<close>

definition respondent :: "int \<Rightarrow> string \<Rightarrow> string \<Rightarrow> string \<Rightarrow> data_row" where
  "respondent n c i v =
     \<lparr>responseid = n, Country = Some c, Industry = Some i, Revenue_Range = Some v\<rparr>"

definition data_columns :: "string list" where
  "data_columns = [''responseid'', ''Country'', ''Industry'', ''Revenue Range'']"

definition data_dtype :: "string \<Rightarrow> dtype" where
  "data_dtype c = (if c = ''responseid'' then Int64 else Object)"

text \<open>Scenario A: three respondents of one segment, whose quota is 2.\<close>

definition scenario_A_data :: data_df where
  "scenario_A_data =
     \<lparr>d_columns = data_columns, d_dtype = data_dtype,
      d_rows = [respondent 1 ''USA'' ''Tech'' ''1B+'', respondent 2 ''USA'' ''Tech'' ''1B+'',
                respondent 3 ''USA'' ''Tech'' ''1B+'']\<rparr>"

definition scenario_A_universe :: universe_df where
  "scenario_A_universe =
     \<lparr>u_columns = [''Industry'', ''Country'', ''1B+''],
      u_dtype = (\<lambda>c. if c = ''1B+'' then Int64 else Object),
      u_rows = [\<lparr>u_Country = Some ''USA'', u_Industry = Some ''Tech'',
                 u_cell = (\<lambda>c. Fin 2)\<rparr>]\<rparr>"

text \<open>A quota table whose two revenue range columns both hold text.\<close>

definition two_text_columns :: universe_df where
  "two_text_columns =
     \<lparr>u_columns = [''Industry'', ''Country'', ''250M to 500M'', ''1B+''],
      u_dtype = (\<lambda>c. Object),
      u_rows = [\<lparr>u_Country = Some ''USA'', u_Industry = Some ''Tech'',
                 u_cell = (\<lambda>c. NaN)\<rparr>]\<rparr>"

text \<open>A quota table with one row, whose only quota cell is missing.\<close>

definition missing_cell_universe :: universe_df where
  "missing_cell_universe =
     \<lparr>u_columns = [''Industry'', ''Country'', ''1B+''],
      u_dtype = (\<lambda>c. if c = ''1B+'' then Float64 else Object),
      u_rows = [\<lparr>u_Country = Some ''USA'', u_Industry = Some ''Tech'',
                 u_cell = (\<lambda>c. NaN)\<rparr>]\<rparr>"

text \<open>
  Scenario C: a respondent whose revenue range \<^verbatim>\<open>2B+\<close> is not one of the four revenue
  range columns of the quota table.
\<close>

definition accepted_ranges :: "string list" where
  "accepted_ranges = [''Less than 250M'', ''250M to 500M'', ''500M to 1B'', ''1B+'']"

definition scenario_C_data :: data_df where
  "scenario_C_data =
     \<lparr>d_columns = data_columns, d_dtype = data_dtype,
      d_rows = [respondent 1 ''USA'' ''Tech'' ''2B+'', respondent 2 ''USA'' ''Tech'' ''1B+'']\<rparr>"




text \<open>One respondent, of a segment whose quota is 0, and the row of the merged frame.\<close>

definition zero_quota_universe :: universe_df where
  "zero_quota_universe =
     \<lparr>u_columns = [''Industry'', ''Country'', ''1B+''],
      u_dtype = (\<lambda>c. if c = ''1B+'' then Int64 else Object),
      u_rows = [\<lparr>u_Country = Some ''USA'', u_Industry = Some ''Tech'',
                 u_cell = (\<lambda>c. Fin 0)\<rparr>]\<rparr>"

definition one_respondent :: data_df where
  "one_respondent =
     \<lparr>d_columns = data_columns, d_dtype = data_dtype,
      d_rows = [respondent 1 ''USA'' ''Tech'' ''1B+'']\<rparr>"

definition zero_quota_row :: merged_row where
  "zero_quota_row =
     \<lparr>m_Country = ''USA'', m_Industry = ''Tech'', m_Revenue_Range = ''1B+'', m_count = 1,
      m_response_ids = [1], m_quota = Fin 0, m_excess = Fin 1,
      m_fulfillment_percentage = Fin 100\<rparr>"



section \<open>Evaluation\<close>

lemma rounded_small: "\<bar>x\<bar> \<le> 1000000 \<Longrightarrow> rounded x = Fin x"
proof -
  assume a: "\<bar>x\<bar> \<le> 1000000"
  have "(2::rat) ^ 20 \<le> 2 ^ 1023" by (rule power_increasing) simp_all
  moreover have "(1::rat) \<le> 2 - 1 / 2 ^ 53" by simp
  ultimately have "1 * (2::rat) ^ 20 \<le> (2 - 1 / 2 ^ 53) * 2 ^ 1023"
    by (intro mult_mono) simp_all
  then have "(1000000::rat) < overflow_threshold"
    by (simp add: overflow_threshold_def)
  with a show ?thesis by (auto simp: rounded_def)
qed

lemmas process_defs =
  process_files_def process_body_def grouped_data_def missing_from_def
  group_keys_def List.map_filter_simps key_of.simps group_row_def members_def universe_df_melted_def
  melt_cell_def merge_keys_def incompatible_def merged_df_def merge_left_def merge_row_def
  same_key_def with_quota_def calculate_def rounded_small excess_of_row_def slice_from_def
  excess_dict_def fulfillment_frame_def round_row_def rint_def ensure_columns_def
  merged_columns_def required_columns_def select_rename_def reraise_def data_dtype_def

section \<open>Scenario A\<close>

text \<open>
  C3. On the respondents 1, 2 and 3 of the segment (USA, Tech, 1B+) and the quota table
  with the single row (USA, Tech) whose column 1B+ holds 2, \<^verbatim>\<open>process_files\<close> returns one
  excess row, for respondent 3, with quota 2, count 3 and excess 1, and one fulfillment
  row, for the segment, with count 3, quota 2 and percentage 100.
\<close>

theorem scenario_A:
  "process_files scenario_A_data scenario_A_universe [''1B+''] =
     Inr ([\<lparr>e_Country = ''USA'', e_Industry = ''Tech'', e_Revenue_Range = ''1B+'',
            e_Quota = Fin 2, e_Count = 3, e_Excess = Fin 1, e_Response_ID = 3\<rparr>],
          [\<lparr>f_Country = ''USA'', f_Industry = ''Tech'', f_Revenue_Range = ''1B+'',
            f_Count = 3, f_Quota = Fin 2, f_Fulfillment_Percentage = Fin 100\<rparr>])"
  by (simp add: process_defs scenario_A_data_def scenario_A_universe_def respondent_def
      data_columns_def)

section \<open>The numeric check of the quota table\<close>

lemma check_numeric_first:
  "\<forall>c\<in>set pre. is_numeric_dtype (dt c) \<Longrightarrow> \<not> is_numeric_dtype (dt col) \<Longrightarrow>
   check_numeric dt (pre @ col # post) =
     Inl (Exn ValueError (Lit (''Universe file column '' @ [CHR 0x27] @ col @ [CHR 0x27]
               @ '' must contain numeric values.'')))"
  by (induction pre) auto

text \<open>
  C5, as the code has it. When the quota table has its two key columns and a revenue
  range column that is not numeric, \<^verbatim>\<open>validate_universe_file\<close> fails with a
  \<^verbatim>\<open>ValueError\<close> whose message names the first such column, in the order of the
  columns, and no other: the loop raises as soon as it meets one.
\<close>

theorem validate_universe_file_first_offender:
  assumes "''Industry'' \<in> set (u_columns df)" and "''Country'' \<in> set (u_columns df)"
    and "filter (\<lambda>col. col \<notin> set [''Industry'', ''Country'']) (u_columns df) = pre @ col # post"
    and "\<forall>c\<in>set pre. is_numeric_dtype (u_dtype df c)"
    and "\<not> is_numeric_dtype (u_dtype df col)"
  shows "validate_universe_file df =
     Inl (Exn ValueError (Lit (''Universe file column '' @ [CHR 0x27] @ col @ [CHR 0x27]
               @ '' must contain numeric values.'')))"
  using assms check_numeric_first[of pre "u_dtype df" col post]
  by (simp add: validate_universe_file_def missing_from_def)

theorem validate_universe_file_first_offender_witness:
  "''Industry'' \<in> set (u_columns two_text_columns)
   \<and> ''Country'' \<in> set (u_columns two_text_columns)
   \<and> filter (\<lambda>col. col \<notin> set [''Industry'', ''Country'']) (u_columns two_text_columns)
       = [] @ ''250M to 500M'' # [''1B+'']
   \<and> \<not> is_numeric_dtype (u_dtype two_text_columns ''250M to 500M'')
   \<and> validate_universe_file two_text_columns =
       Inl (Exn ValueError (Lit (''Universe file column '' @ [CHR 0x27] @ ''250M to 500M''
              @ [CHR 0x27] @ '' must contain numeric values.'')))"
  using validate_universe_file_first_offender
          [of two_text_columns "[]" "''250M to 500M''" "[''1B+'']"]
  by (simp add: two_text_columns_def)

text \<open>
  C5 as stated fails: with the two text columns \<^verbatim>\<open>250M to 500M\<close> and \<^verbatim>\<open>1B+\<close>, the
  message names the first one only.
\<close>

theorem validate_universe_file_two_offenders:
  "\<not> is_numeric_dtype (u_dtype two_text_columns ''250M to 500M'')
   \<and> \<not> is_numeric_dtype (u_dtype two_text_columns ''1B+'')
   \<and> validate_universe_file two_text_columns =
       Inl (Exn ValueError
             (Lit ''Universe file column '250M to 500M' must contain numeric values.''))"
  by (simp add: validate_universe_file_def missing_from_def two_text_columns_def)

section \<open>The reshaped quota table\<close>

lemma concat_map_nth:
  "i < length cs \<Longrightarrow> j < length rows \<Longrightarrow>
   concat (map (\<lambda>c. map (f c) rows) cs) ! (i * length rows + j) = f (cs ! i) (rows ! j)"
proof (induction cs arbitrary: i)
  case Nil
  then show ?case by simp
next
  case (Cons c cs)
  show ?case
  proof (cases i)
    case 0
    with Cons.prems show ?thesis by (simp add: nth_append)
  next
    case (Suc k)
    with Cons.prems have "k < length cs" by simp
    from Cons.IH[OF this Cons.prems(2)] Suc show ?thesis
      by (simp add: nth_append add.assoc)
  qed
qed

lemma length_concat_map_const:
  "length (concat (map (\<lambda>c. map (f c) rows) cs)) = length rows * length cs"
  by (induction cs) auto

text \<open>
  C6, as the code has it. On a quota table that has the columns \<^verbatim>\<open>melt\<close> is asked for
  (and none named \<^verbatim>\<open>quota\<close>), the reshaping returns one row for each revenue range
  column and each row of the table, column by column: the output has
  \<open>length rows * length revenue_ranges\<close> rows, and the row for column \<open>i\<close> and table row
  \<open>j\<close> carries that row's country and industry, the column's name and the cell, whatever
  the cell holds. A cell that is zero and a cell that is missing both yield their row;
  no row is dropped.
\<close>

theorem melt_keeps_every_cell:
  assumes "''quota'' \<notin> set (u_columns u)"
    and "''Country'' \<in> set (u_columns u)" and "''Industry'' \<in> set (u_columns u)"
    and "set rr \<subseteq> set (u_columns u)"
  shows "\<exists>melted. universe_df_melted u rr = Inr melted
           \<and> length melted = length (u_rows u) * length rr
           \<and> (\<forall>i<length rr. \<forall>j<length (u_rows u).
                 melted ! (i * length (u_rows u) + j) =
                   \<lparr>q_Country = u_Country (u_rows u ! j), q_Industry = u_Industry (u_rows u ! j),
                    q_Revenue_Range = rr ! i, q_quota = u_cell (u_rows u ! j) (rr ! i)\<rparr>)"
proof -
  have "missing_from ([''Country'', ''Industry''] @ rr) (u_columns u) = []"
    using assms by (auto simp: missing_from_def filter_empty_conv)
  then have "universe_df_melted u rr =
      Inr (concat (map (\<lambda>col. map (melt_cell col) (u_rows u)) rr))"
    using assms(1) by (simp add: universe_df_melted_def)
  then show ?thesis
    by (simp add: length_concat_map_const concat_map_nth melt_cell_def)
qed

theorem melt_keeps_every_cell_witness:
  "''quota'' \<notin> set (u_columns missing_cell_universe)
   \<and> ''Country'' \<in> set (u_columns missing_cell_universe)
   \<and> ''Industry'' \<in> set (u_columns missing_cell_universe)
   \<and> set [''1B+''] \<subseteq> set (u_columns missing_cell_universe)
   \<and> (\<exists>melted. universe_df_melted missing_cell_universe [''1B+''] = Inr melted
        \<and> length melted = 1 \<and> q_quota (melted ! 0) = NaN)"
proof -
  have h: "''quota'' \<notin> set (u_columns missing_cell_universe)"
      "''Country'' \<in> set (u_columns missing_cell_universe)"
      "''Industry'' \<in> set (u_columns missing_cell_universe)"
      "set [''1B+''] \<subseteq> set (u_columns missing_cell_universe)"
    by (simp_all add: missing_cell_universe_def)
  from melt_keeps_every_cell[OF h] obtain melted where
    m: "universe_df_melted missing_cell_universe [''1B+''] = Inr melted"
       "length melted = length (u_rows missing_cell_universe) * length [''1B+'']"
       "\<forall>i<length [''1B+'']. \<forall>j<length (u_rows missing_cell_universe).
           melted ! (i * length (u_rows missing_cell_universe) + j) =
             \<lparr>q_Country = u_Country (u_rows missing_cell_universe ! j),
              q_Industry = u_Industry (u_rows missing_cell_universe ! j),
              q_Revenue_Range = [''1B+''] ! i,
              q_quota = u_cell (u_rows missing_cell_universe ! j) ([''1B+''] ! i)\<rparr>"
    by blast
  from m(3) have "q_quota (melted ! 0) = NaN"
    by (simp add: missing_cell_universe_def)
  with m(1,2) h show ?thesis by (simp add: missing_cell_universe_def)
qed

text \<open>
  C6 as stated fails: the one cell of the table below is missing, and the reshaped table
  has its row, with a missing quota.
\<close>

theorem melt_missing_cell_kept:
  "u_cell (hd (u_rows missing_cell_universe)) ''1B+'' = NaN \<and>
   universe_df_melted missing_cell_universe [''1B+''] =
     Inr [\<lparr>q_Country = Some ''USA'', q_Industry = Some ''Tech'', q_Revenue_Range = ''1B+'',
           q_quota = NaN\<rparr>]"
  by (simp add: universe_df_melted_def missing_from_def melt_cell_def missing_cell_universe_def)

section \<open>Respondents of no segment\<close>

lemma map_filter_drop_None:
  assumes "\<And>x. \<not> P x \<Longrightarrow> f x = None"
  shows "List.map_filter f (filter P xs) = List.map_filter f xs"
  using assms by (induction xs) (auto simp: List.map_filter_simps split: option.splits)


lemma group_keys_drop_None:
  assumes "\<And>r. \<not> P r \<Longrightarrow> key_of r = None"
  shows "group_keys (filter P rows) = group_keys rows"
  using assms by (simp add: group_keys_def map_filter_drop_None)

lemma members_drop_None:
  assumes "\<And>r. \<not> P r \<Longrightarrow> key_of r = None"
  shows "members (filter P rows) k = members rows k"
proof -
  have "\<And>r. (P r \<and> key_of r = Some k) = (key_of r = Some k)"
  proof -
    fix r
    show "(P r \<and> key_of r = Some k) = (key_of r = Some k)"
    proof (cases "P r")
      case True
      then show ?thesis by simp
    next
      case False
      then have "key_of r = None" by (rule assms)
      with False show ?thesis by simp
    qed
  qed
  then show ?thesis by (simp add: members_def)
qed

lemma group_row_drop_None:
  assumes "\<And>r. \<not> P r \<Longrightarrow> key_of r = None"
  shows "group_row (filter P rows) k = group_row rows k"
  using assms by (simp add: group_row_def members_drop_None)

lemma grouped_data_drop_None:
  assumes "\<And>r. \<not> P r \<Longrightarrow> key_of r = None"
  shows "grouped_data (d\<lparr>d_rows := filter P (d_rows d)\<rparr>) = grouped_data d"
  using assms
  by (simp add: grouped_data_def group_keys_drop_None group_row_drop_None cong: map_cong)

lemma process_files_grouped:
  assumes "grouped_data d' = grouped_data d" and "d_dtype d' = d_dtype d"
  shows "process_files d' u rr = process_files d u rr"
proof -
  have m: "merge_keys d' u = merge_keys d u"
    using assms(2) by (simp add: merge_keys_def fun_eq_iff)
  show ?thesis
    unfolding process_files_def process_body_def assms(1) m ..
qed

lemma key_of_no_range: "Revenue_Range r = None \<Longrightarrow> key_of r = None"
  by (simp add: key_of.simps split: option.splits)

lemma dropna_filter:
  "dropna (map f (filter (\<lambda>r. f r \<noteq> None) rows)) = dropna (map f rows)"
  by (induction rows) (auto simp: dropna_def)

lemma validate_data_file_cong:
  assumes "d_columns d' = d_columns d"
    and "dropna (map Revenue_Range (d_rows d')) = dropna (map Revenue_Range (d_rows d))"
  shows "validate_data_file d' rr = validate_data_file d rr"
  unfolding validate_data_file_def assms ..

text \<open>
  C10. The respondents whose revenue range is missing count for nothing: with them or
  without them \<^verbatim>\<open>validate_data_file\<close> gives the same verdict, the aggregation yields
  the same groups with the same counts and identifiers, and \<^verbatim>\<open>process_files\<close> returns
  the same excess rows and the same fulfillment report (or fails alike).
\<close>

theorem missing_revenue_range_ignored:
  "validate_data_file (d\<lparr>d_rows := filter (\<lambda>r. Revenue_Range r \<noteq> None) (d_rows d)\<rparr>) rr
     = validate_data_file d rr
   \<and> grouped_data (d\<lparr>d_rows := filter (\<lambda>r. Revenue_Range r \<noteq> None) (d_rows d)\<rparr>)
     = grouped_data d
   \<and> process_files (d\<lparr>d_rows := filter (\<lambda>r. Revenue_Range r \<noteq> None) (d_rows d)\<rparr>) u rr
     = process_files d u rr"
proof -
  have g: "grouped_data (d\<lparr>d_rows := filter (\<lambda>r. Revenue_Range r \<noteq> None) (d_rows d)\<rparr>)
     = grouped_data d"
    by (rule grouped_data_drop_None) (simp add: key_of_no_range)
  have v: "validate_data_file (d\<lparr>d_rows := filter (\<lambda>r. Revenue_Range r \<noteq> None) (d_rows d)\<rparr>) rr
     = validate_data_file d rr"
  proof (rule validate_data_file_cong)
    show "d_columns (d\<lparr>d_rows := filter (\<lambda>r. Revenue_Range r \<noteq> None) (d_rows d)\<rparr>)
        = d_columns d" by simp
    have "d_rows (d\<lparr>d_rows := filter (\<lambda>r. Revenue_Range r \<noteq> None) (d_rows d)\<rparr>)
        = filter (\<lambda>r. Revenue_Range r \<noteq> None) (d_rows d)" by simp
    then have "dropna (map Revenue_Range
          (d_rows (d\<lparr>d_rows := filter (\<lambda>r. Revenue_Range r \<noteq> None) (d_rows d)\<rparr>)))
        = dropna (map Revenue_Range (filter (\<lambda>r. Revenue_Range r \<noteq> None) (d_rows d)))"
      by (rule arg_cong)
    also have "\<dots> = dropna (map Revenue_Range (d_rows d))"
      by (rule dropna_filter)
    finally show "dropna (map Revenue_Range
          (d_rows (d\<lparr>d_rows := filter (\<lambda>r. Revenue_Range r \<noteq> None) (d_rows d)\<rparr>)))
        = dropna (map Revenue_Range (d_rows d))" .
  qed
  have p: "process_files (d\<lparr>d_rows := filter (\<lambda>r. Revenue_Range r \<noteq> None) (d_rows d)\<rparr>) u rr
     = process_files d u rr"
    by (rule process_files_grouped[OF g]) simp
  from v g p show ?thesis by (intro conjI)
qed

section \<open>Segments\<close>

subsection \<open>Segments through the steps\<close>

lemma segment_of_group_row [simp]: "segment_of_grouped (group_row rows k) = k"
  by (simp add: segment_of_grouped_def group_row_def)

lemma segment_of_with_quota [simp]: "segment_of_joined (with_quota g x) = segment_of_grouped g"
  by (simp add: segment_of_joined_def with_quota_def segment_of_grouped_def)

lemma segment_of_calculate [simp]: "segment_of_merged (calculate j) = segment_of_joined j"
  by (simp add: segment_of_merged_def calculate_def segment_of_joined_def)





subsection \<open>Dropping the respondents of a segment\<close>





section \<open>The steps of the reconciliation\<close>

subsection \<open>The loop over the merged rows\<close>



lemma segment_of_excess_dict [simp]:
  "segment_of_excess (excess_dict row n) = segment_of_merged row"
  by (simp add: segment_of_excess_def excess_dict_def segment_of_merged_def)


subsection \<open>The fulfillment frame\<close>


lemma set_fulfillment_frame:
  "set (fulfillment_frame rows) = round_row ` {row \<in> set rows. notna (m_quota row)}"
  by (auto simp: fulfillment_frame_def)

lemma segment_of_select_rename [simp]:
  "segment_of_fulfillment (select_rename (round_row row)) = segment_of_merged row"
  by (simp add: segment_of_fulfillment_def select_rename_def round_row_def segment_of_merged_def)

subsection \<open>Rows of the merged frame\<close>

lemma merged_df_row:
  assumes "row \<in> set (merged_df grouped melted)"
  obtains g x where "g \<in> set grouped" and "row = calculate (with_quota g x)"
    and "x = NaN \<or> (\<exists>q\<in>set melted. same_key g q \<and> x = q_quota q)"
proof -
  from assms obtain g j where g: "g \<in> set grouped" and j: "j \<in> set (merge_row melted g)"
    and row: "row = calculate j"
    by (auto simp: merged_df_def merge_left_def)
  show thesis
  proof (cases "filter (same_key g) melted")
    case Nil
    with j have "j = with_quota g NaN" by (simp add: merge_row_def)
    with g row show thesis by (auto intro: that)
  next
    case (Cons q qs)
    with j obtain q' where "q' \<in> set (filter (same_key g) melted)" and "j = with_quota g (q_quota q')"
      by (auto simp: merge_row_def)
    then have "q' \<in> set melted" "same_key g q'" "j = with_quota g (q_quota q')" by auto
    with g row show thesis by (auto intro: that)
  qed
qed

lemma quota_of_calculate [simp]: "m_quota (calculate (with_quota g x)) = x"
  by (simp add: calculate_def with_quota_def)



lemma excess_of_row_NaN: "m_quota row = NaN \<Longrightarrow> m_excess row = clip_lower_0 (count_minus (m_count row) (m_quota row)) \<Longrightarrow> excess_of_row row = Inr []"
  by (simp add: excess_of_row_def)

lemma excess_of_calculate:
  "m_excess (calculate j) = clip_lower_0 (count_minus (m_count (calculate j)) (m_quota (calculate j)))"
  by (simp add: calculate_def)

lemma merged_df_excess:
  "row \<in> set (merged_df grouped melted) \<Longrightarrow>
     m_excess row = clip_lower_0 (count_minus (m_count row) (m_quota row))"
  by (auto simp: merged_df_def excess_of_calculate)

section \<open>Groups and their excess\<close>

subsection \<open>Counts and identifiers of a group\<close>

lemma set_map_filter_key: "set (List.map_filter f xs) = {k. \<exists>x\<in>set xs. f x = Some k}"
  by (induction xs) (auto simp: List.map_filter_simps split: option.splits)

lemma members_nonempty:
  assumes "k \<in> set (group_keys rows)"
  shows "members rows k \<noteq> []"
proof -
  from assms obtain r where "r \<in> set rows" and "key_of r = Some k"
    by (auto simp: group_keys_def set_map_filter_key)
  then have "r \<in> set (members rows k)" by (simp add: members_def)
  then show ?thesis by auto
qed

lemma grouped_data_rows:
  assumes "grouped_data d = Inr grouped" and "g \<in> set grouped"
  shows "g_count g = length (members (d_rows d) (segment_of_grouped g))"
    and "g_response_ids g = sort (map responseid (members (d_rows d) (segment_of_grouped g)))"
    and "0 < g_count g"
proof -
  from assms obtain k where k: "k \<in> set (group_keys (d_rows d))"
    and g: "g = group_row (d_rows d) k"
    by (auto simp: grouped_data_def split: if_splits)
  from g have s: "segment_of_grouped g = k" by simp
  from g s show "g_count g = length (members (d_rows d) (segment_of_grouped g))"
    by (simp add: group_row_def)
  from g s show "g_response_ids g = sort (map responseid (members (d_rows d) (segment_of_grouped g)))"
    by (simp add: group_row_def)
  from members_nonempty[OF k] g show "0 < g_count g"
    by (simp add: group_row_def)
qed

lemma merged_df_rows:
  assumes "grouped_data d = Inr grouped" and "row \<in> set (merged_df grouped melted)"
  shows "m_count row = length (members (d_rows d) (segment_of_merged row))"
    and "m_response_ids row = sort (map responseid (members (d_rows d) (segment_of_merged row)))"
    and "0 < m_count row"
    and "m_fulfillment_percentage row =
           clip_upper_100 (times_100 (count_div (m_count row) (m_quota row)))"
proof -
  from assms(2) obtain g x where g: "g \<in> set grouped" and row: "row = calculate (with_quota g x)"
    by (rule merged_df_row)
  from row have s: "segment_of_merged row = segment_of_grouped g" by simp
  from row have c: "m_count row = g_count g" "m_response_ids row = g_response_ids g"
    by (simp_all add: calculate_def with_quota_def)
  from c s grouped_data_rows[OF assms(1) g]
  show "m_count row = length (members (d_rows d) (segment_of_merged row))"
    and "m_response_ids row = sort (map responseid (members (d_rows d) (segment_of_merged row)))"
    and "0 < m_count row"
    by simp_all
  from row show "m_fulfillment_percentage row =
           clip_upper_100 (times_100 (count_div (m_count row) (m_quota row)))"
    by (simp add: calculate_def)
qed

subsection \<open>The trailing slice\<close>

lemma slice_from_last:
  "0 < k \<Longrightarrow> k \<le> length xs \<Longrightarrow> slice_from (- int k) xs = drop (length xs - k) xs"
  by (auto simp: slice_from_def Let_def nat_diff_distrib' max_def)

lemma excess_of_row_trailing:
  assumes "m_excess row = Fin (of_nat k)" and "0 < k" and "k \<le> length (m_response_ids row)"
  shows "excess_of_row row =
           Inr (map (excess_dict row) (drop (length (m_response_ids row) - k) (m_response_ids row)))"
  using assms by (simp add: excess_of_row_def slice_from_last)




section \<open>The revenue ranges of the respondent table\<close>

lemma set_unique: "set (unique xs) = set xs"
  by (simp add: unique_def)

lemma distinct_unique: "distinct (unique xs)"
  by (simp add: unique_def)

lemma set_dropna: "set (dropna xs) = {v. Some v \<in> set xs}"
  by (force simp: dropna_def image_iff)

lemma join_concat:
  "xs \<noteq> [] \<Longrightarrow> join sep xs = concat (map (\<lambda>x. x @ sep) (butlast xs)) @ last xs"
  by (induction sep xs rule: join.induct) simp_all

lemma join_text:
  "join sep xs = concat (map (\<lambda>x. x @ sep) (butlast xs)) @ (if xs = [] then [] else last xs)"
  by (cases "xs = []") (simp_all add: join_concat)

lemma in_join:
  "v \<in> set xs \<Longrightarrow> \<exists>a b. join sep xs = a @ v @ b"
proof (induction sep xs rule: join.induct)
  case (1 sep)
  then show ?case by simp
next
  case (2 sep x)
  then have "join sep [x] = [] @ v @ []" by simp
  then show ?case by blast
next
  case (3 sep x y ys)
  show ?case
  proof (cases "v = x")
    case True
    then have "join sep (x # y # ys) = [] @ v @ (sep @ join sep (y # ys))" by simp
    then show ?thesis by blast
  next
    case False
    with 3 obtain a b where "join sep (y # ys) = a @ v @ b" by auto
    then have "join sep (x # y # ys) = (x @ sep @ a) @ v @ b" by simp
    then show ?thesis by blast
  qed
qed

lemma singleton_list: "distinct xs \<Longrightarrow> set xs = {a} \<Longrightarrow> xs = [a]"
  by (cases xs) (auto simp: insert_eq_iff dest: subset_singletonD)


lemma validate_data_file_values:
  assumes "set [''responseid'', ''Country'', ''Industry'', ''Revenue Range'']
             \<subseteq> set (d_columns df)"
  shows "validate_data_file df rr =
     (if filter (\<lambda>r. r \<notin> set rr) (unique (dropna (map Revenue_Range (d_rows df)))) \<noteq> [] then
        Inl (Exn ValueError (Lit (''Data file contains invalid Revenue Range values: ''
               @ join '', '' (filter (\<lambda>r. r \<notin> set rr)
                                (unique (dropna (map Revenue_Range (d_rows df)))))
               @ ''. Expected values are: '' @ join '', '' rr)))
      else Inr ())"
proof -
  have "missing_from [''responseid'', ''Country'', ''Industry'', ''Revenue Range'']
             (d_columns df) = []"
    using assms by (auto simp: missing_from_def)
  then show ?thesis by (simp add: validate_data_file_def Let_def)
qed

text \<open>
  C7. Let the respondent table have its four required columns. If every value of its
  revenue range column that is not missing is one of the accepted names, compared as
  strings, \<^verbatim>\<open>validate_data_file\<close> succeeds. Otherwise it fails with a \<^verbatim>\<open>ValueError\<close>
  whose message is the text \<^verbatim>\<open>Data file contains invalid Revenue Range values: \<close>, the
  invalid values, each once and all of them, with a comma and a space between two of
  them, the text \<^verbatim>\<open>. Expected values are: \<close>, and the accepted names, separated in the
  same way; so every invalid value and every accepted name is part of the message.
\<close>

theorem validate_data_file_revenue_ranges:
  assumes "set [''responseid'', ''Country'', ''Industry'', ''Revenue Range'']
             \<subseteq> set (d_columns df)"
  shows "if {v. Some v \<in> Revenue_Range ` set (d_rows df) \<and> v \<notin> set rr} = {}
         then validate_data_file df rr = Inr ()
         else (\<exists>invalid message.
                 distinct invalid
                 \<and> set invalid = {v. Some v \<in> Revenue_Range ` set (d_rows df) \<and> v \<notin> set rr}
                 \<and> message = ''Data file contains invalid Revenue Range values: ''
                       @ concat (map (\<lambda>v. v @ '', '') (butlast invalid)) @ last invalid
                       @ ''. Expected values are: ''
                       @ concat (map (\<lambda>v. v @ '', '') (butlast rr))
                       @ (if rr = [] then [] else last rr)
                 \<and> validate_data_file df rr = Inl (Exn ValueError (Lit message))
                 \<and> (\<forall>v\<in>set invalid \<union> set rr. \<exists>a b. message = a @ v @ b))"
proof -
  let ?bad = "{v. Some v \<in> Revenue_Range ` set (d_rows df) \<and> v \<notin> set rr}"
  let ?inv = "filter (\<lambda>r. r \<notin> set rr) (unique (dropna (map Revenue_Range (d_rows df))))"
  let ?msg = "''Data file contains invalid Revenue Range values: ''
                       @ concat (map (\<lambda>v. v @ '', '') (butlast ?inv)) @ last ?inv
                       @ ''. Expected values are: ''
                       @ concat (map (\<lambda>v. v @ '', '') (butlast rr))
                       @ (if rr = [] then [] else last rr)"
  have s: "set ?inv = ?bad"
    by (auto simp: set_unique set_dropna)
  have d: "distinct ?inv"
    by (simp add: distinct_unique)
  note v = validate_data_file_values[OF assms, of rr]
  show ?thesis
  proof (cases "?inv = []")
    case True
    then have "set ?inv = {}" by (simp only: set_empty)
    with s have "?bad = {}" by simp
    moreover from True v have "validate_data_file df rr = Inr ()" by simp
    ultimately show ?thesis by (simp only: if_True refl)
  next
    case False
    then have "set ?inv \<noteq> {}" by (simp only: set_empty not_False_eq_True)
    with s have ne: "?bad \<noteq> {}" by simp
    have j1: "join '', '' ?inv = concat (map (\<lambda>v. v @ '', '') (butlast ?inv)) @ last ?inv"
      using False by (rule join_concat)
    have j2: "join '', '' rr = concat (map (\<lambda>v. v @ '', '') (butlast rr))
                       @ (if rr = [] then [] else last rr)"
      by (rule join_text)
    from False v have "validate_data_file df rr =
        Inl (Exn ValueError (Lit (''Data file contains invalid Revenue Range values: ''
               @ join '', '' ?inv @ ''. Expected values are: '' @ join '', '' rr)))"
      by simp
    then have r: "validate_data_file df rr = Inl (Exn ValueError (Lit ?msg))"
      by (simp only: j1 j2 append_assoc)
    have o: "\<forall>v\<in>set ?inv \<union> set rr. \<exists>a b. ?msg = a @ v @ b"
    proof
      fix v assume "v \<in> set ?inv \<union> set rr"
      then consider "v \<in> set ?inv" | "v \<in> set rr" by blast
      then show "\<exists>a b. ?msg = a @ v @ b"
      proof cases
        case 1
        from in_join[OF this, of "'', ''"] obtain a b where "join '', '' ?inv = a @ v @ b"
          by blast
        with j1 have "concat (map (\<lambda>v. v @ '', '') (butlast ?inv)) @ last ?inv = a @ v @ b"
          by simp
        then have "?msg = (''Data file contains invalid Revenue Range values: '' @ a) @ v
            @ (b @ ''. Expected values are: ''
                 @ concat (map (\<lambda>v. v @ '', '') (butlast rr))
                 @ (if rr = [] then [] else last rr))"
          by (metis append_assoc)
        then show ?thesis by blast
      next
        case 2
        from in_join[OF this, of "'', ''"] obtain a b where "join '', '' rr = a @ v @ b"
          by blast
        with j2 have "concat (map (\<lambda>v. v @ '', '') (butlast rr))
                       @ (if rr = [] then [] else last rr) = a @ v @ b"
          by simp
        then have "?msg = (''Data file contains invalid Revenue Range values: ''
               @ concat (map (\<lambda>v. v @ '', '') (butlast ?inv)) @ last ?inv
               @ ''. Expected values are: '' @ a) @ v @ b"
          by (metis append_assoc)
        then show ?thesis by blast
      qed
    qed
    from d s r o have "\<exists>invalid message.
                 distinct invalid \<and> set invalid = ?bad
                 \<and> message = ''Data file contains invalid Revenue Range values: ''
                       @ concat (map (\<lambda>v. v @ '', '') (butlast invalid)) @ last invalid
                       @ ''. Expected values are: ''
                       @ concat (map (\<lambda>v. v @ '', '') (butlast rr))
                       @ (if rr = [] then [] else last rr)
                 \<and> validate_data_file df rr = Inl (Exn ValueError (Lit message))
                 \<and> (\<forall>v\<in>set invalid \<union> set rr. \<exists>a b. message = a @ v @ b)"
      by blast
    with ne show ?thesis by (simp only: if_False)
  qed
qed

lemma scenario_C_invalid:
  "{v. Some v \<in> Revenue_Range ` set (d_rows scenario_C_data) \<and> v \<notin> set accepted_ranges}
     = {''2B+''}"
  by (auto simp: scenario_C_data_def accepted_ranges_def respondent_def)

theorem validate_data_file_revenue_ranges_witness:
  "set [''responseid'', ''Country'', ''Industry'', ''Revenue Range'']
     \<subseteq> set (d_columns scenario_C_data)
   \<and> validate_data_file scenario_C_data accepted_ranges =
       Inl (Exn ValueError (Lit ''Data file contains invalid Revenue Range values: 2B+. Expected values are: Less than 250M, 250M to 500M, 500M to 1B, 1B+''))"
proof -
  have h: "set [''responseid'', ''Country'', ''Industry'', ''Revenue Range'']
             \<subseteq> set (d_columns scenario_C_data)"
    by (simp add: scenario_C_data_def data_columns_def)
  from validate_data_file_revenue_ranges[OF h, of accepted_ranges]
  obtain invalid message where i: "distinct invalid" "set invalid = {''2B+''}"
    and m: "message = ''Data file contains invalid Revenue Range values: ''
                       @ concat (map (\<lambda>v. v @ '', '') (butlast invalid)) @ last invalid
                       @ ''. Expected values are: ''
                       @ concat (map (\<lambda>v. v @ '', '') (butlast accepted_ranges))
                       @ (if accepted_ranges = [] then [] else last accepted_ranges)"
    and r: "validate_data_file scenario_C_data accepted_ranges
              = Inl (Exn ValueError (Lit message))"
    unfolding scenario_C_invalid by (auto simp only: insert_not_empty if_False simp_thms)
  from i have "invalid = [''2B+'']" by (rule singleton_list)
  with m have "message = ''Data file contains invalid Revenue Range values: 2B+. Expected values are: Less than 250M, 250M to 500M, 500M to 1B, 1B+''"
    by (simp add: accepted_ranges_def)
  with r h show ?thesis by simp
qed

section \<open>Segments without a quota row\<close>




lemma process_files_Inr:
  assumes "process_files d u rr = Inr (ex, ful)"
  obtains grouped melted where "grouped_data d = Inr grouped"
    and "universe_df_melted u rr = Inr melted"
    and "excess_respondents (merged_df grouped melted) = Inr ex"
    and "ful = map select_rename (fulfillment_frame (merged_df grouped melted))"
  using assms
  by (auto simp: process_files_def process_body_def split: sum.splits)





section \<open>The excess respondents of a segment\<close>






section \<open>Missing and zero quotas\<close>

lemma rint_le:
  assumes "x \<le> of_int n"
  shows "rint x \<le> n"
proof -
  from assms have f: "\<lfloor>x\<rfloor> \<le> n" by (simp add: floor_le_iff)
  show ?thesis
  proof (cases "\<lfloor>x\<rfloor> = n")
    case True
    with assms have "x - of_int \<lfloor>x\<rfloor> \<le> 0" by simp
    then have "x - of_int \<lfloor>x\<rfloor> < 1 / 2" by linarith
    with True show ?thesis by (simp add: rint_def Let_def)
  next
    case False
    with f have "\<lfloor>x\<rfloor> + 1 \<le> n" by simp
    then show ?thesis by (auto simp: rint_def Let_def)
  qed
qed

lemma rounded_cases:
  obtains "rounded x = PosInf" and "1000000 < x"
  | "rounded x = NegInf" | "rounded x = Fin x"
proof (cases "rounded x = Fin x")
  case True
  then show thesis by (rule that(3))
next
  case False
  then have "\<not> \<bar>x\<bar> \<le> 1000000" using rounded_small[of x] by blast
  then consider "1000000 < x" | "x < - 1000000" by linarith
  then show thesis
  proof cases
    case 1
    show thesis
    proof (cases "rounded x = PosInf")
      case True
      with 1 show thesis by (intro that(1))
    next
      case False
      with \<open>rounded x \<noteq> Fin x\<close> have "rounded x = NegInf"
        by (auto simp: rounded_def split: if_splits)
      then show thesis by (rule that(2))
    qed
  next
    case 2
    have "(0::rat) < overflow_threshold" by (simp add: overflow_threshold_def)
    with 2 have "\<not> overflow_threshold \<le> x" by linarith
    with \<open>rounded x \<noteq> Fin x\<close> have "rounded x = NegInf"
      by (auto simp: rounded_def split: if_splits)
    then show thesis by (rule that(2))
  qed
qed

lemma round_2_le_100:
  assumes "x \<le> 100"
  shows "round_2 (Fin x) \<noteq> PosInf \<and> round_2 (Fin x) \<noteq> NaN
         \<and> (\<forall>y. round_2 (Fin x) = Fin y \<longrightarrow> y \<le> 100)"
proof (cases "x * 100" rule: rounded_cases)
  case 1
  with assms show ?thesis by simp
next
  case 2
  then show ?thesis by simp
next
  case 3
  from assms have "x * 100 \<le> of_int 10000" by simp
  then have "rint (x * 100) \<le> 10000" by (rule rint_le)
  then have "(of_int (rint (x * 100)) :: rat) \<le> 10000" by linarith
  then have "(of_int (rint (x * 100)) :: rat) / 100 \<le> 100" by simp
  with 3 show ?thesis by simp
qed

lemma percentage_bounded:
  assumes "0 < c" and "notna quota"
  shows "\<exists>p. clip_upper_100 (times_100 (count_div c quota)) = p
           \<and> (p = NegInf \<or> p = NegZero \<or> (\<exists>x. p = Fin x \<and> x \<le> 100))"
proof -
  have t: "\<And>x. clip_upper_100 (times_100 (Fin x)) = NegInf
             \<or> (\<exists>y. clip_upper_100 (times_100 (Fin x)) = Fin y \<and> y \<le> 100)"
  proof -
    fix x :: rat
    show "clip_upper_100 (times_100 (Fin x)) = NegInf
             \<or> (\<exists>y. clip_upper_100 (times_100 (Fin x)) = Fin y \<and> y \<le> 100)"
      by (cases "x * 100" rule: rounded_cases) simp_all
  qed
  show ?thesis
  proof (cases quota)
    case (Fin q)
    show ?thesis
    proof (cases "q = 0")
      case True
      with Fin assms show ?thesis by simp
    next
      case False
      with Fin assms have cd: "count_div c quota = rounded (of_nat c / q)" by simp
      show ?thesis
      proof (cases "of_nat c / q" rule: rounded_cases)
        case 1
        with cd show ?thesis by simp
      next
        case 2
        with cd show ?thesis by simp
      next
        case 3
        with cd t[of "of_nat c / q"] show ?thesis by auto
      qed
    qed
  next
    case NegZero
    with assms show ?thesis by simp
  next
    case NaN
    with assms show ?thesis by simp
  next
    case PosInf
    with t[of 0] show ?thesis by auto
  next
    case NegInf
    then show ?thesis by simp
  qed
qed

lemma round_2_bounded:
  assumes "p = NegInf \<or> p = NegZero \<or> (\<exists>x. p = Fin x \<and> x \<le> 100)"
  shows "round_2 p \<noteq> PosInf \<and> round_2 p \<noteq> NaN \<and> (\<forall>y. round_2 p = Fin y \<longrightarrow> y \<le> 100)"
  using assms round_2_le_100 by auto

lemma reported_row:
  assumes "row \<in> set M" and "notna (m_quota row)"
  shows "select_rename (round_row row) \<in> set (map select_rename (fulfillment_frame M))"
  using assms by (auto simp: set_fulfillment_frame)

lemma excess_of_row_all:
  assumes "m_excess row = Fin (of_nat (m_count row))" and "0 < m_count row"
    and "length (m_response_ids row) = m_count row"
  shows "excess_of_row row = Inr (map (excess_dict row) (m_response_ids row))"
proof -
  from assms(2,3) have "excess_of_row row =
      Inr (map (excess_dict row)
             (drop (length (m_response_ids row) - m_count row) (m_response_ids row)))"
    by (intro excess_of_row_trailing[OF assms(1)]) simp_all
  with assms(3) show ?thesis by simp
qed


text \<open>
  C2, as the code has it. Let \<^verbatim>\<open>process_files\<close> return, and take a row of the merged
  frame. If its quota is missing, the loop of step 5 appends nothing for it and does not
  raise, and no row of the fulfillment report has a missing quota. If its quota is zero,
  nothing is raised either, but the segment is reported: every respondent of the segment
  is an excess respondent, and the fulfillment report has the segment's row, with the
  percentage 100 for the zero of positive sign and minus infinity for the zero of negative
  sign. No percentage of the report is plus infinity or NaN, and none is above 100.
\<close>

theorem null_and_zero_quota:
  assumes ok: "process_files d u rr = Inr (ex, ful)"
    and g: "grouped_data d = Inr grouped" and m: "universe_df_melted u rr = Inr melted"
    and r: "row \<in> set (merged_df grouped melted)"
  shows "(m_quota row = NaN \<longrightarrow> excess_of_row row = Inr [])
       \<and> (\<forall>f\<in>set ful. f_Quota f \<noteq> NaN)
       \<and> (m_quota row = Fin 0 \<longrightarrow>
            excess_of_row row
              = Inr (map (\<lambda>n. \<lparr>e_Country = m_Country row, e_Industry = m_Industry row,
                        e_Revenue_Range = m_Revenue_Range row, e_Quota = Fin 0,
                        e_Count = m_count row, e_Excess = Fin (of_nat (m_count row)),
                        e_Response_ID = n\<rparr>)
                    (m_response_ids row))
            \<and> \<lparr>f_Country = m_Country row, f_Industry = m_Industry row,
                f_Revenue_Range = m_Revenue_Range row, f_Count = m_count row,
                f_Quota = Fin 0, f_Fulfillment_Percentage = Fin 100\<rparr> \<in> set ful)
       \<and> (m_quota row = NegZero \<longrightarrow>
            excess_of_row row
              = Inr (map (\<lambda>n. \<lparr>e_Country = m_Country row, e_Industry = m_Industry row,
                        e_Revenue_Range = m_Revenue_Range row, e_Quota = NegZero,
                        e_Count = m_count row, e_Excess = Fin (of_nat (m_count row)),
                        e_Response_ID = n\<rparr>)
                    (m_response_ids row))
            \<and> \<lparr>f_Country = m_Country row, f_Industry = m_Industry row,
                f_Revenue_Range = m_Revenue_Range row, f_Count = m_count row,
                f_Quota = NegZero, f_Fulfillment_Percentage = NegInf\<rparr> \<in> set ful)
       \<and> (\<forall>f\<in>set ful. f_Fulfillment_Percentage f \<noteq> PosInf
              \<and> f_Fulfillment_Percentage f \<noteq> NaN
              \<and> (\<forall>x. f_Fulfillment_Percentage f = Fin x \<longrightarrow> x \<le> 100))"
proof -
  let ?M = "merged_df grouped melted"
  from ok obtain grouped' melted' where "grouped_data d = Inr grouped'"
    and "universe_df_melted u rr = Inr melted'"
    and "ful = map select_rename (fulfillment_frame (merged_df grouped' melted'))"
    by (rule process_files_Inr)
  with g m have ful: "ful = map select_rename (fulfillment_frame ?M)" by simp
  note facts = merged_df_rows[OF g r]
  from facts(1,2) have len: "length (m_response_ids row) = m_count row" by simp
  have 1: "m_quota row = NaN \<longrightarrow> excess_of_row row = Inr []"
    using merged_df_excess[OF r] by (auto intro: excess_of_row_NaN)
  have 2: "\<forall>f\<in>set ful. f_Quota f \<noteq> NaN"
  proof
    fix f assume "f \<in> set ful"
    with ful obtain row' where "notna (m_quota row')" and "f = select_rename (round_row row')"
      by (auto simp: set_fulfillment_frame)
    then show "f_Quota f \<noteq> NaN"
      by (auto simp: select_rename_def round_row_def)
  qed
  have zero: "excess_of_row row
              = Inr (map (\<lambda>n. \<lparr>e_Country = m_Country row, e_Industry = m_Industry row,
                        e_Revenue_Range = m_Revenue_Range row, e_Quota = z,
                        e_Count = m_count row, e_Excess = Fin (of_nat (m_count row)),
                        e_Response_ID = n\<rparr>)
                    (m_response_ids row))
            \<and> \<lparr>f_Country = m_Country row, f_Industry = m_Industry row,
                f_Revenue_Range = m_Revenue_Range row, f_Count = m_count row,
                f_Quota = z, f_Fulfillment_Percentage = p\<rparr> \<in> set ful"
    if z: "m_quota row = z" and zz: "z = Fin 0 \<and> p = Fin 100 \<or> z = NegZero \<and> p = NegInf"
    for z p
  proof
    from merged_df_excess[OF r] z zz have e: "m_excess row = Fin (of_nat (m_count row))"
      by auto
    then have "excess_of_row row = Inr (map (excess_dict row) (m_response_ids row))"
      using facts(3) len by (rule excess_of_row_all)
    then show "excess_of_row row
              = Inr (map (\<lambda>n. \<lparr>e_Country = m_Country row, e_Industry = m_Industry row,
                        e_Revenue_Range = m_Revenue_Range row, e_Quota = z,
                        e_Count = m_count row, e_Excess = Fin (of_nat (m_count row)),
                        e_Response_ID = n\<rparr>)
                    (m_response_ids row))"
      by (simp add: excess_dict_def z e)
    from facts(3,4) z zz have "round_2 (m_fulfillment_percentage row) = p"
      by (auto simp: rounded_small rint_def)
    then have "select_rename (round_row row) =
        \<lparr>f_Country = m_Country row, f_Industry = m_Industry row,
         f_Revenue_Range = m_Revenue_Range row, f_Count = m_count row,
         f_Quota = z, f_Fulfillment_Percentage = p\<rparr>"
      by (simp add: select_rename_def round_row_def z)
    moreover from z zz have "notna (m_quota row)" by auto
    from reported_row[OF r this] have "select_rename (round_row row) \<in> set ful"
      by (simp only: ful)
    ultimately show "\<lparr>f_Country = m_Country row, f_Industry = m_Industry row,
                f_Revenue_Range = m_Revenue_Range row, f_Count = m_count row,
                f_Quota = z, f_Fulfillment_Percentage = p\<rparr> \<in> set ful"
      by simp
  qed
  have 3: "m_quota row = Fin 0 \<longrightarrow>
            excess_of_row row
              = Inr (map (\<lambda>n. \<lparr>e_Country = m_Country row, e_Industry = m_Industry row,
                        e_Revenue_Range = m_Revenue_Range row, e_Quota = Fin 0,
                        e_Count = m_count row, e_Excess = Fin (of_nat (m_count row)),
                        e_Response_ID = n\<rparr>)
                    (m_response_ids row))
            \<and> \<lparr>f_Country = m_Country row, f_Industry = m_Industry row,
                f_Revenue_Range = m_Revenue_Range row, f_Count = m_count row,
                f_Quota = Fin 0, f_Fulfillment_Percentage = Fin 100\<rparr> \<in> set ful"
    by (rule impI, rule zero) simp_all
  have 4: "m_quota row = NegZero \<longrightarrow>
            excess_of_row row
              = Inr (map (\<lambda>n. \<lparr>e_Country = m_Country row, e_Industry = m_Industry row,
                        e_Revenue_Range = m_Revenue_Range row, e_Quota = NegZero,
                        e_Count = m_count row, e_Excess = Fin (of_nat (m_count row)),
                        e_Response_ID = n\<rparr>)
                    (m_response_ids row))
            \<and> \<lparr>f_Country = m_Country row, f_Industry = m_Industry row,
                f_Revenue_Range = m_Revenue_Range row, f_Count = m_count row,
                f_Quota = NegZero, f_Fulfillment_Percentage = NegInf\<rparr> \<in> set ful"
    by (rule impI, rule zero) simp_all
  have 5: "\<forall>f\<in>set ful. f_Fulfillment_Percentage f \<noteq> PosInf
              \<and> f_Fulfillment_Percentage f \<noteq> NaN
              \<and> (\<forall>x. f_Fulfillment_Percentage f = Fin x \<longrightarrow> x \<le> 100)"
  proof
    fix f assume "f \<in> set ful"
    with ful obtain row' where r': "row' \<in> set ?M" and n: "notna (m_quota row')"
      and f: "f = select_rename (round_row row')"
      by (auto simp: set_fulfillment_frame)
    note facts' = merged_df_rows[OF g r']
    from percentage_bounded[OF facts'(3) n] facts'(4)
    have "m_fulfillment_percentage row' = NegInf \<or> m_fulfillment_percentage row' = NegZero
        \<or> (\<exists>x. m_fulfillment_percentage row' = Fin x \<and> x \<le> 100)"
      by simp
    from round_2_bounded[OF this] f
    show "f_Fulfillment_Percentage f \<noteq> PosInf \<and> f_Fulfillment_Percentage f \<noteq> NaN
              \<and> (\<forall>x. f_Fulfillment_Percentage f = Fin x \<longrightarrow> x \<le> 100)"
      by (simp add: select_rename_def round_row_def)
  qed
  from 1 2 3 4 5 show ?thesis by (intro conjI)
qed

text \<open>
  C2 as stated fails: of one respondent whose segment has the quota 0, the fulfillment
  report has a row, at 100 percent.
\<close>

theorem zero_quota_is_reported:
  "process_files one_respondent zero_quota_universe [''1B+''] =
     Inr ([\<lparr>e_Country = ''USA'', e_Industry = ''Tech'', e_Revenue_Range = ''1B+'',
            e_Quota = Fin 0, e_Count = 1, e_Excess = Fin 1, e_Response_ID = 1\<rparr>],
          [\<lparr>f_Country = ''USA'', f_Industry = ''Tech'', f_Revenue_Range = ''1B+'',
            f_Count = 1, f_Quota = Fin 0, f_Fulfillment_Percentage = Fin 100\<rparr>])"
  by (simp add: process_defs one_respondent_def zero_quota_universe_def respondent_def
      data_columns_def)

theorem null_and_zero_quota_witness:
  "merged_df [group_row (d_rows one_respondent) (''USA'', ''Tech'', ''1B+'')]
        [melt_cell ''1B+'' (hd (u_rows zero_quota_universe))] = [zero_quota_row]
   \<and> m_quota zero_quota_row = Fin 0
   \<and> (\<exists>ex ful. process_files one_respondent zero_quota_universe [''1B+''] = Inr (ex, ful)
         \<and> \<lparr>f_Country = ''USA'', f_Industry = ''Tech'', f_Revenue_Range = ''1B+'',
             f_Count = 1, f_Quota = Fin 0, f_Fulfillment_Percentage = Fin 100\<rparr> \<in> set ful)
   \<and> excess_of_row zero_quota_row =
       Inr [\<lparr>e_Country = ''USA'', e_Industry = ''Tech'', e_Revenue_Range = ''1B+'',
            e_Quota = Fin 0, e_Count = 1, e_Excess = Fin 1, e_Response_ID = 1\<rparr>]"
proof -
  let ?G = "[group_row (d_rows one_respondent) (''USA'', ''Tech'', ''1B+'')]"
  let ?Q = "[melt_cell ''1B+'' (hd (u_rows zero_quota_universe))]"
  obtain ex ful where ok: "process_files one_respondent zero_quota_universe [''1B+''] = Inr (ex, ful)"
    by (simp add: process_defs one_respondent_def zero_quota_universe_def respondent_def
      data_columns_def)
  have g: "grouped_data one_respondent = Inr ?G"
    by (simp add: grouped_data_def missing_from_def group_keys_def List.map_filter_simps
          key_of.simps one_respondent_def respondent_def data_columns_def)
  have m: "universe_df_melted zero_quota_universe [''1B+''] = Inr ?Q"
    by (simp add: universe_df_melted_def missing_from_def zero_quota_universe_def)
  have M: "merged_df ?G ?Q = [zero_quota_row]"
    by (simp add: merged_df_def merge_left_def merge_row_def same_key_def with_quota_def
          calculate_def group_row_def members_def key_of.simps melt_cell_def
          one_respondent_def zero_quota_universe_def respondent_def zero_quota_row_def)
  then have r: "zero_quota_row \<in> set (merged_df ?G ?Q)" by simp
  have z: "m_quota zero_quota_row = Fin 0" by (simp add: zero_quota_row_def)
  from null_and_zero_quota[OF ok g m r] z
  have "excess_of_row zero_quota_row
          = Inr (map (\<lambda>n. \<lparr>e_Country = m_Country zero_quota_row,
                    e_Industry = m_Industry zero_quota_row,
                    e_Revenue_Range = m_Revenue_Range zero_quota_row, e_Quota = Fin 0,
                    e_Count = m_count zero_quota_row,
                    e_Excess = Fin (of_nat (m_count zero_quota_row)), e_Response_ID = n\<rparr>)
                (m_response_ids zero_quota_row))"
    and "\<lparr>f_Country = m_Country zero_quota_row, f_Industry = m_Industry zero_quota_row,
          f_Revenue_Range = m_Revenue_Range zero_quota_row, f_Count = m_count zero_quota_row,
          f_Quota = Fin 0, f_Fulfillment_Percentage = Fin 100\<rparr> \<in> set ful"
    by blast+
  then have e: "excess_of_row zero_quota_row =
       Inr [\<lparr>e_Country = ''USA'', e_Industry = ''Tech'', e_Revenue_Range = ''1B+'',
            e_Quota = Fin 0, e_Count = 1, e_Excess = Fin 1, e_Response_ID = 1\<rparr>]"
    and f: "\<lparr>f_Country = ''USA'', f_Industry = ''Tech'', f_Revenue_Range = ''1B+'',
             f_Count = 1, f_Quota = Fin 0, f_Fulfillment_Percentage = Fin 100\<rparr> \<in> set ful"
    by (simp_all add: zero_quota_row_def)
  from ok f have "\<exists>ex ful. process_files one_respondent zero_quota_universe [''1B+''] = Inr (ex, ful)
         \<and> \<lparr>f_Country = ''USA'', f_Industry = ''Tech'', f_Revenue_Range = ''1B+'',
             f_Count = 1, f_Quota = Fin 0, f_Fulfillment_Percentage = Fin 100\<rparr> \<in> set ful"
    by blast
  with M z e show ?thesis by (intro conjI)
qed

end
